theory Spec2Isabelle
  imports Complex_Main "HOL-Library.AList" "HOL-Library.Multiset"
begin

section \<open>Service types, registry and routing table (types/services.ts)\<close>

text \<open>
  The string union \<^verbatim>\<open>ServiceType\<close> is a datatype with one constructor per literal.
\<close>

datatype ServiceType =
    TextAnalysis
  | ImageGeneration
  | ChartGeneration
  | DiagramGeneration
  | EquationRendering
  | VoiceGeneration
  | SlideLayoutService
  | CitationFormatting

text \<open>
  \<^verbatim>\<open>ServiceConfig\<close>: an optional field is an \<open>option\<close> (\<open>None\<close> is
  \<^verbatim>\<open>undefined\<close>). Numbers are carried as \<open>int\<close> or \<open>rat\<close>; no modelled operation
  computes with them.
\<close>

record ServiceConfig =
  apiKey :: "string option"
  endpoint :: "string option"
  model :: "string option"
  maxRequestsPerMinute :: "int option"
  timeout :: "int option"
  enabled :: bool
  temperature :: "rat option"
  maxTokens :: "int option"

text \<open>
  \<^verbatim>\<open>Partial<ServiceConfig>\<close>: for every field, \<open>None\<close> says that the key is absent
  from the object literal, \<open>Some v\<close> that it is present with value \<open>v\<close> (for an optional
  field \<open>v\<close> may itself be \<^verbatim>\<open>undefined\<close>, that is \<open>Some None\<close>).
\<close>

record PartialConfig =
  p_apiKey :: "string option option"
  p_endpoint :: "string option option"
  p_model :: "string option option"
  p_maxRequestsPerMinute :: "int option option"
  p_timeout :: "int option option"
  p_enabled :: "bool option option"
  p_temperature :: "rat option option"
  p_maxTokens :: "int option option"

record AIService =
  service_id :: string
  service_type :: ServiceType
  name :: string
  provider :: string
  description :: string
  capabilities :: "string list"
  config :: ServiceConfig
  requiresApiKey :: "bool option"
  priority :: "int option"

datatype HealthStatus = Healthy | Degraded | Down | Unknown

record ServiceHealth =
  serviceId :: string
  status :: HealthStatus
  latency :: int
  lastChecked :: string
  errorRate :: rat
  remainingQuota :: "int option"

datatype FallbackStrategy = NextAvailable | Fail | Degrade

record TaskRouting =
  task :: string
  serviceType :: ServiceType
  preferredServices :: "string list"
  fallbackStrategy :: FallbackStrategy

definition cfg :: "bool \<Rightarrow> ServiceConfig" where
  \<comment> \<open>the object literal \<^verbatim>\<open>{ enabled: b }\<close>\<close>
  "cfg b = \<lparr>apiKey = None, endpoint = None, model = None, maxRequestsPerMinute = None,
     timeout = None, enabled = b, temperature = None, maxTokens = None\<rparr>"

definition svc ::
  "string \<Rightarrow> ServiceType \<Rightarrow> string \<Rightarrow> string \<Rightarrow> string \<Rightarrow> string list \<Rightarrow> bool \<Rightarrow> int \<Rightarrow> AIService" where
  \<comment> \<open>an entry of \<^verbatim>\<open>SERVICE_REGISTRY\<close>: every entry gives exactly these fields\<close>
  "svc i t n p d cs en pr = \<lparr>service_id = i, service_type = t, name = n, provider = p,
     description = d, capabilities = cs, config = cfg en, requiresApiKey = None,
     priority = Some pr\<rparr>"

definition SERVICE_REGISTRY :: "AIService list" where
  "SERVICE_REGISTRY = [
     svc ''openai-gpt4'' TextAnalysis ''GPT-4o'' ''OpenAI''
       ''Best for paper analysis, slide content, summaries''
       [''paper-analysis'', ''slide-generation'', ''summarization'', ''qa-generation''] True 1,
     svc ''anthropic-claude'' TextAnalysis ''Claude 3.5 Sonnet'' ''Anthropic''
       ''Excellent for academic content, long context''
       [''paper-analysis'', ''slide-generation'', ''script-generation''] True 2,
     svc ''google-gemini'' TextAnalysis ''Gemini Pro'' ''Google''
       ''Good free tier, multimodal''
       [''paper-analysis'', ''slide-generation''] True 3,
     svc ''local-ollama'' TextAnalysis ''Local Ollama'' ''Local''
       ''100% private, runs locally''
       [''paper-analysis'', ''slide-generation''] False 4,
     svc ''nano-banana'' ImageGeneration ''Nano Banana'' ''Nano Banana''
       ''Fast, affordable image generation for slides''
       [''slide-illustrations'', ''diagrams'', ''backgrounds'', ''icons''] True 1,
     svc ''dall-e-3'' ImageGeneration ''DALL-E 3'' ''OpenAI''
       ''High quality, follows prompts precisely''
       [''slide-illustrations'', ''diagrams'', ''backgrounds''] True 2,
     svc ''midjourney'' ImageGeneration ''Midjourney API'' ''Midjourney''
       ''Artistic, beautiful visuals''
       [''slide-illustrations'', ''backgrounds'', ''covers''] False 3,
     svc ''stable-diffusion'' ImageGeneration ''Stable Diffusion XL'' ''Stability AI''
       ''Open source, customizable''
       [''slide-illustrations'', ''diagrams'', ''backgrounds''] False 4,
     svc ''quickchart'' ChartGeneration ''QuickChart'' ''QuickChart''
       ''Generate charts from data''
       [''bar-charts'', ''line-charts'', ''pie-charts'', ''scatter-plots''] True 1,
     svc ''chartjs-server'' ChartGeneration ''Chart.js Server'' ''Internal''
       ''Custom chart rendering''
       [''all-chart-types'', ''custom-styling''] True 2,
     svc ''mermaid'' DiagramGeneration ''Mermaid.js'' ''Mermaid''
       ''Flowcharts, sequence diagrams, graphs''
       [''flowcharts'', ''sequence-diagrams'', ''class-diagrams'', ''er-diagrams'', ''gantt''] True 1,
     svc ''plantuml'' DiagramGeneration ''PlantUML'' ''PlantUML''
       ''Complex technical diagrams''
       [''uml-diagrams'', ''architecture-diagrams''] True 2,
     svc ''katex'' EquationRendering ''KaTeX'' ''KaTeX''
       ''Fast math rendering''
       [''latex-equations'', ''math-symbols'', ''formulas''] True 1,
     svc ''mathjax'' EquationRendering ''MathJax'' ''MathJax''
       ''Comprehensive math support''
       [''latex-equations'', ''asciimath'', ''mml''] True 2
   ]"

definition route :: "string \<Rightarrow> ServiceType \<Rightarrow> string list \<Rightarrow> FallbackStrategy \<Rightarrow> TaskRouting" where
  "route t ty ps fb = \<lparr>task = t, serviceType = ty, preferredServices = ps, fallbackStrategy = fb\<rparr>"

definition TASK_ROUTING :: "TaskRouting list" where
  "TASK_ROUTING = [
     route ''paper-analysis'' TextAnalysis
       [''openai-gpt4'', ''anthropic-claude'', ''google-gemini'', ''local-ollama''] NextAvailable,
     route ''slide-content-generation'' TextAnalysis
       [''openai-gpt4'', ''anthropic-claude'', ''google-gemini''] NextAvailable,
     route ''speaker-script'' TextAnalysis
       [''anthropic-claude'', ''openai-gpt4''] NextAvailable,
     route ''slide-illustration'' ImageGeneration
       [''nano-banana'', ''dall-e-3'', ''stable-diffusion''] NextAvailable,
     route ''slide-background'' ImageGeneration
       [''nano-banana'', ''dall-e-3'', ''midjourney''] NextAvailable,
     route ''diagram-illustration'' ImageGeneration
       [''dall-e-3'', ''nano-banana'', ''stable-diffusion''] NextAvailable,
     route ''concept-visualization'' ImageGeneration
       [''nano-banana'', ''dall-e-3''] NextAvailable,
     route ''data-chart'' ChartGeneration
       [''quickchart'', ''chartjs-server''] NextAvailable,
     route ''flowchart'' DiagramGeneration
       [''mermaid'', ''plantuml''] NextAvailable,
     route ''sequence-diagram'' DiagramGeneration
       [''mermaid'', ''plantuml''] NextAvailable,
     route ''architecture-diagram'' DiagramGeneration
       [''plantuml'', ''mermaid''] NextAvailable,
     route ''equation-render'' EquationRendering
       [''katex'', ''mathjax''] NextAvailable
   ]"

section \<open>ServiceManager (lib/service-orchestrator.ts)\<close>

text \<open>
  A JavaScript \<^verbatim>\<open>Map\<close> keeps its keys in insertion order, and \<^verbatim>\<open>set\<close> on a key
  that is present replaces the value where it stands. That is an association list read
  with \<^const>\<open>map_of\<close> and written with \<^const>\<open>AList.update\<close> (which replaces in place and
  appends a new key at the end). The manager's two private maps are the state.
\<close>

record ServiceManager =
  services :: "(string \<times> AIService) list"
  health :: "(string \<times> ServiceHealth) list"

datatype js_error = Error string

definition new_ServiceManager :: "AIService list \<Rightarrow> ServiceManager" where
  \<comment> \<open>the constructor, with \<^verbatim>\<open>SERVICE_REGISTRY\<close> as its argument\<close>
  "new_ServiceManager registry =
     \<lparr>services = foldl (\<lambda>m s. AList.update (service_id s) s m) [] registry, health = []\<rparr>"

definition serviceManager :: ServiceManager where
  "serviceManager = new_ServiceManager SERVICE_REGISTRY"

definition spread :: "'a \<Rightarrow> 'a option \<Rightarrow> 'a" where
  \<comment> \<open>one key of \<^verbatim>\<open>{ ...old, ...partial }\<close>: a key present in the partial object wins\<close>
  "spread old new = (case new of None \<Rightarrow> old | Some v \<Rightarrow> v)"

definition merge_config :: "ServiceConfig \<Rightarrow> PartialConfig \<Rightarrow> ServiceConfig" where
  \<comment> \<open>\<^verbatim>\<open>{ ...service.config, ...config }\<close>. A present \<^verbatim>\<open>enabled: undefined\<close> leaves a
      falsy value, read as \<open>False\<close>: every reader of the flag tests its truthiness.\<close>
  "merge_config c p =
     \<lparr>apiKey = spread (apiKey c) (p_apiKey p),
      endpoint = spread (endpoint c) (p_endpoint p),
      model = spread (model c) (p_model p),
      maxRequestsPerMinute = spread (maxRequestsPerMinute c) (p_maxRequestsPerMinute p),
      timeout = spread (timeout c) (p_timeout p),
      enabled = (case p_enabled p of None \<Rightarrow> enabled c | Some None \<Rightarrow> False | Some (Some b) \<Rightarrow> b),
      temperature = spread (temperature c) (p_temperature p),
      maxTokens = spread (maxTokens c) (p_maxTokens p)\<rparr>"

definition configureService :: "ServiceManager \<Rightarrow> string \<Rightarrow> PartialConfig \<Rightarrow> js_error + ServiceManager" where
  \<comment> \<open>The method holds no \<^verbatim>\<open>throw\<close>: it always returns (\<open>Inr\<close>) the manager it leaves.\<close>
  "configureService m sid c =
     (case map_of (services m) sid of
        Some service \<Rightarrow>
          Inr (m\<lparr>services := AList.update sid (service\<lparr>config := merge_config (config service) c\<rparr>) (services m)\<rparr>)
      | None \<Rightarrow> Inr m)"

fun walk_preferred :: "ServiceManager \<Rightarrow> string list \<Rightarrow> AIService option" where
  \<comment> \<open>the \<^verbatim>\<open>for ... of routing.preferredServices\<close> loop with its early return\<close>
  "walk_preferred m [] = None"
| "walk_preferred m (sid # rest) =
     (case map_of (services m) sid of
        None \<Rightarrow> walk_preferred m rest
      | Some service \<Rightarrow>
          if enabled (config service) then
            (case map_of (health m) sid of
               None \<Rightarrow> Some service
             | Some h \<Rightarrow> if status h = Healthy then Some service else walk_preferred m rest)
          else walk_preferred m rest)"

definition getServiceForTask :: "ServiceManager \<Rightarrow> string \<Rightarrow> AIService option" where
  \<comment> \<open>\<open>None\<close> is the \<^verbatim>\<open>null\<close> the method returns\<close>
  "getServiceForTask m t =
     (case List.find (\<lambda>r. task r = t) TASK_ROUTING of
        None \<Rightarrow> None
      | Some routing \<Rightarrow> walk_preferred m (preferredServices routing))"

definition priority_or_99 :: "AIService \<Rightarrow> int" where
  \<comment> \<open>\<^verbatim>\<open>a.priority || 99\<close>: \<^verbatim>\<open>undefined\<close> and \<open>0\<close> are falsy\<close>
  "priority_or_99 s = (case priority s of None \<Rightarrow> 99 | Some p \<Rightarrow> if p = 0 then 99 else p)"

definition getServicesByType :: "ServiceManager \<Rightarrow> ServiceType \<Rightarrow> AIService list" where
  \<comment> \<open>\<^verbatim>\<open>Array.prototype.sort\<close> is stable; with the comparator \<^verbatim>\<open>key(a) - key(b)\<close> it is
      the stable sort by that key, which \<^const>\<open>sort_key\<close> is.\<close>
  "getServicesByType m ty =
     sort_key priority_or_99
       (filter (\<lambda>s. service_type s = ty \<and> enabled (config s)) (map snd (services m)))"

definition updateHealth :: "ServiceManager \<Rightarrow> string \<Rightarrow> ServiceHealth \<Rightarrow> ServiceManager" where
  "updateHealth m sid h = m\<lparr>health := AList.update sid h (health m)\<rparr>"

section \<open>The second resolver (getServiceForTask beside DEFAULT_SERVICES)\<close>

text \<open>
  Strings are lists of ASCII characters. \<^verbatim>\<open>String.prototype.includes\<close> tests for a
  contiguous occurrence, \<^verbatim>\<open>toLowerCase\<close> lowers the letters A to Z, \<^verbatim>\<open>join\<close> puts the
  separator between the elements.
\<close>

fun str_includes :: "string \<Rightarrow> string \<Rightarrow> bool" where
  "str_includes [] sub = (sub = [])"
| "str_includes (c # cs) sub = (take (length sub) (c # cs) = sub \<or> str_includes cs sub)"

definition lower_char :: "char \<Rightarrow> char" where
  "lower_char c = (let n = (of_char c :: nat) in if 65 \<le> n \<and> n \<le> 90 then char_of (n + 32) else c)"

definition toLowerCase :: "string \<Rightarrow> string" where
  "toLowerCase s = map lower_char s"

fun join :: "string \<Rightarrow> string list \<Rightarrow> string" where
  "join sep [] = []"
| "join sep [x] = x"
| "join sep (x # y # ys) = x @ sep @ join sep (y # ys)"

definition taskMap :: "(string \<times> ServiceType) list" where
  "taskMap = [
     (''image'', ImageGeneration),
     (''diagram'', DiagramGeneration),
     (''chart'', ChartGeneration),
     (''equation'', EquationRendering),
     (''voice'', VoiceGeneration),
     (''layout'', SlideLayoutService),
     (''citation'', CitationFormatting)
   ]"

text \<open>
  \<^verbatim>\<open>taskMap[key]\<close> reads a property of an object literal, so a key that the literal does
  not own is looked up in \<^verbatim>\<open>Object.prototype\<close>: there the read yields a function or
  an object (truthy, and equal to no string) instead of \<^verbatim>\<open>undefined\<close>.
\<close>

datatype property_read = Undefined | Own ServiceType | Inherited

definition object_prototype_keys :: "string list" where
  "object_prototype_keys = [''constructor'', ''__proto__'', ''__defineGetter__'',
     ''__defineSetter__'', ''__lookupGetter__'', ''__lookupSetter__'', ''hasOwnProperty'',
     ''isPrototypeOf'', ''propertyIsEnumerable'', ''toLocaleString'', ''toString'', ''valueOf'']"

definition taskMap_read :: "string \<Rightarrow> property_read" where
  "taskMap_read k =
     (case map_of taskMap k of
        Some ty \<Rightarrow> Own ty
      | None \<Rightarrow> if k \<in> set object_prototype_keys then Inherited else Undefined)"

definition getActiveService :: "ServiceType \<Rightarrow> AIService list \<Rightarrow> AIService option" where
  "getActiveService ty svcs = List.find (\<lambda>s. service_type s = ty \<and> enabled (config s)) svcs"

definition getServiceForTask_lib :: "string \<Rightarrow> AIService list \<Rightarrow> AIService option" where
  \<comment> \<open>With an inherited value \<^verbatim>\<open>getActiveService\<close> compares every \<^verbatim>\<open>s.type\<close> with a
      value that is no string: the test is false for each service.\<close>
  "getServiceForTask_lib t svcs =
     (case taskMap_read (toLowerCase t) of
        Undefined \<Rightarrow> None
      | Own ty \<Rightarrow> getActiveService ty svcs
      | Inherited \<Rightarrow> List.find (\<lambda>s. False) svcs)"

section \<open>The work planner: planVisuals\<close>

datatype SlideLayout =
    LTitle | LContent | LSplit | LImage | LQuote | LReferences | LFigure | LTable | LChart
  | LComparison | LTimeline | LDiagram | LEquation | LTwoColumn | LThreeColumn
  | LSectionDivider | LThankYou

datatype FigureKind = KFigure | KTable | KChart

record ExtractedFigure =
  fig_id :: string
  page :: int
  caption :: string
  fig_type :: FigureKind
  fig_description :: string
  placeholder :: "string option"

text \<open>
  Of \<^verbatim>\<open>EnhancedSlide\<close> and \<^verbatim>\<open>PaperMetadata\<close> the records keep the fields that the
  planner and the pipeline read (and the slide's id); the other fields are read by no
  function modelled here.
\<close>

record EnhancedSlide =
  slide_id :: int
  title :: string
  content :: "string list"
  layout :: SlideLayout
  figure :: "ExtractedFigure option"

record PaperMetadata =
  md_title :: string
  md_authors :: "string list"
  md_affiliations :: "string list"
  md_abstract :: string
  md_keywords :: "string list"

datatype VisualType = Illustration | Diagram | Chart | Equation | NoVisual

record 'd VisualGenerationPlan =
  slideIndex :: nat
  slideTitle :: string
  visualType :: VisualType
  prompt :: "string option"
  data :: "'d option"

definition or_else :: "string option \<Rightarrow> string \<Rightarrow> string" where
  \<comment> \<open>\<^verbatim>\<open>a || b\<close> on strings: \<^verbatim>\<open>undefined\<close> and the empty string are falsy\<close>
  "or_else a b = (case a of None \<Rightarrow> b | Some s \<Rightarrow> if s = [] then b else s)"

definition first_keyword :: "PaperMetadata \<Rightarrow> string" where
  \<comment> \<open>\<^verbatim>\<open>metadata.keywords[0] || 'academic'\<close>; reading index 0 of an empty array is
      \<^verbatim>\<open>undefined\<close>\<close>
  "first_keyword md = or_else (case md_keywords md of [] \<Rightarrow> None | k # _ \<Rightarrow> Some k) ''academic''"

definition plan_for :: "(string list \<Rightarrow> 'd) \<Rightarrow> PaperMetadata \<Rightarrow> nat \<Rightarrow> EnhancedSlide \<Rightarrow> 'd VisualGenerationPlan" where
  \<comment> \<open>The body of the \<^verbatim>\<open>forEach\<close> callback up to the \<^verbatim>\<open>push\<close>: the plan object after
      the if/else-if chain. \<open>xcd\<close> stands for \<^verbatim>\<open>extractChartData\<close> (a regular expression
      and \<^verbatim>\<open>parseFloat\<close>), which always returns an object.\<close>
  "plan_for xcd md index slide =
     (let plan = \<lparr>slideIndex = index, slideTitle = title slide, visualType = NoVisual,
                   prompt = None, data = None\<rparr>
      in
        if layout slide = LFigure \<or> figure slide \<noteq> None then
          plan\<lparr>visualType := Illustration,
               prompt := Some (or_else (map_option fig_description (figure slide))
                 (''Illustration for: '' @ title slide @ ''. '' @ join '' '' (content slide)))\<rparr>
        else if layout slide = LDiagram \<or> str_includes (toLowerCase (title slide)) ''method'' then
          plan\<lparr>visualType := Diagram,
               prompt := Some (''Diagram showing '' @ title slide @ '': '' @ join '', '' (content slide))\<rparr>
        else if layout slide = LChart \<or>
                list_ex (\<lambda>c. str_includes c ''%'' \<or> str_includes c ''increase'' \<or> str_includes c ''decrease'')
                  (content slide) then
          plan\<lparr>visualType := Chart, data := Some (xcd (content slide))\<rparr>
        else if list_ex (\<lambda>c. str_includes c ''$'' \<or> str_includes c [CHR 0x5C] \<or> str_includes c ''equation'')
                  (content slide) then
          plan\<lparr>visualType := Equation\<rparr>
        else if index mod 5 = 0 \<and> index > 0 then
          plan\<lparr>visualType := Illustration,
               prompt := Some (''Abstract background illustration for: '' @ title slide @ ''. '' @
                 first_keyword md @ '' theme.'')\<rparr>
        else plan)"

fun planVisuals_loop ::
  "(string list \<Rightarrow> 'd) \<Rightarrow> PaperMetadata \<Rightarrow> nat \<Rightarrow> EnhancedSlide list \<Rightarrow>
     'd VisualGenerationPlan list \<Rightarrow> 'd VisualGenerationPlan list" where
  \<comment> \<open>\<^verbatim>\<open>slides.forEach((slide, index) => ...)\<close> over the rest of the array, \<open>plans\<close>
      being the array pushed to\<close>
  "planVisuals_loop xcd md index [] plans = plans"
| "planVisuals_loop xcd md index (slide # rest) plans =
     (let plan = plan_for xcd md index slide
      in planVisuals_loop xcd md (Suc index) rest
           (if visualType plan \<noteq> NoVisual then plans @ [plan] else plans))"

definition planVisuals ::
  "(string list \<Rightarrow> 'd) \<Rightarrow> EnhancedSlide list \<Rightarrow> PaperMetadata \<Rightarrow> 'd VisualGenerationPlan list" where
  "planVisuals xcd slides md = planVisuals_loop xcd md 0 slides []"

section \<open>The pipeline: orchestratePresentation\<close>

datatype VisualProvider = NanoBanana | DallE

record VisualServiceConfig =
  vs_provider :: VisualProvider
  vs_apiKey :: string

text \<open>\<^verbatim>\<open>UserSettings\<close> is only passed on to the text service: a type parameter \<open>'u\<close>.\<close>

record 'u OrchestrationConfig =
  textService :: 'u
  visualService :: "VisualServiceConfig option"
  generateVisuals :: bool

datatype AssetType = AIllustration | ADiagram | ABackground | AIcon | AChartVisual | AConceptArt

datatype AssetStyle = Realistic | Flat | Isometric | Sketch | ThreeD | Minimalist

record Dimensions =
  width :: int
  height :: int
  aspectRatio :: string

record AssetContext =
  ctx_slideTitle :: string
  ctx_paperTitle :: string
  subjectArea :: string

record VisualAssetRequest =
  req_type :: AssetType
  req_prompt :: string
  style :: AssetStyle
  colors :: "string list"
  dimensions :: Dimensions
  req_context :: "AssetContext option"

text \<open>
  The three result maps are keyed by slide index. Each is a finite map \<open>nat \<rightharpoonup> string\<close>:
  the order in which a \<^verbatim>\<open>Map\<close> received its keys is not kept.
\<close>

record OrchestrationResult =
  slides :: "EnhancedSlide list"
  visuals :: "nat \<rightharpoonup> string"
  charts :: "nat \<rightharpoonup> string"
  diagrams :: "nat \<rightharpoonup> string"

text \<open>
  What the pipeline calls is outside of it: the two text-service calls and the image
  request go over the network, the chart URL is built by \<^verbatim>\<open>JSON.stringify\<close> and
  \<^verbatim>\<open>encodeURIComponent\<close>. Each is a parameter that says, for the arguments of a call,
  whether the promise is fulfilled (\<open>Inr\<close>) or rejected (\<open>Inl\<close>). The image request also
  takes the slide index of the unit that issues it, so that two units with equal requests
  may meet different fates.
\<close>

record ('u, 'd) Collaborators =
  analyzePaperWithService :: "string \<Rightarrow> 'u \<Rightarrow> js_error + PaperMetadata"
  generateSlidesWithService :: "PaperMetadata \<Rightarrow> 'u \<Rightarrow> js_error + EnhancedSlide list"
  extractChartData :: "string list \<Rightarrow> 'd"
  generateWithNanoBanana :: "nat \<Rightarrow> VisualAssetRequest \<Rightarrow> string \<Rightarrow> js_error + string"
  generateChart :: "'d \<Rightarrow> js_error + string"

text \<open>
  The run leaves a trace: one event for every call it makes, in the order of the
  model, and one for every \<^verbatim>\<open>console.error\<close> of a unit's \<^verbatim>\<open>catch\<close>. The progress
  lines written with \<^verbatim>\<open>console.log\<close> are left out.
\<close>

datatype event =
    Call_analyzePaper
  | Call_generateSlides
  | Call_planVisuals
  | Call_generateWithNanoBanana nat
  | Call_generateChart nat
  | Call_generateDiagram nat
  | ConsoleError nat js_error

definition generateDiagram :: "string \<Rightarrow> string" where
  "generateDiagram d =
     ''flowchart TD'' @ [CHR 0x0A] @
     ''    A['' @ d @ ''] --> B[Step 1]'' @ [CHR 0x0A] @
     ''    B --> C[Step 2]'' @ [CHR 0x0A] @
     ''    C --> D[Result]''"

definition illustration_request :: "PaperMetadata \<Rightarrow> 'd VisualGenerationPlan \<Rightarrow> VisualAssetRequest" where
  \<comment> \<open>the \<^verbatim>\<open>request\<close> literal, built when \<^verbatim>\<open>plan.prompt\<close> is truthy\<close>
  "illustration_request md plan =
     \<lparr>req_type = AIllustration,
      req_prompt = or_else (prompt plan) [],
      style = Flat,
      colors = [''#3b82f6'', ''#10b981'', ''#8b5cf6''],
      dimensions = \<lparr>width = 1024, height = 768, aspectRatio = ''4:3''\<rparr>,
      req_context = Some \<lparr>ctx_slideTitle = slideTitle plan, ctx_paperTitle = md_title md,
                       subjectArea = first_keyword md\<rparr>\<rparr>"

definition visual_unit ::
  "('u, 'd) Collaborators \<Rightarrow> VisualServiceConfig \<Rightarrow> PaperMetadata \<Rightarrow>
     event list \<times> OrchestrationResult \<Rightarrow> 'd VisualGenerationPlan \<Rightarrow> event list \<times> OrchestrationResult" where
  \<comment> \<open>One callback of \<^verbatim>\<open>visualPlans.map(async (plan) => { try ... catch ... })\<close>, run to its
      end on the trace and the result so far. A rejected call lands in the \<^verbatim>\<open>catch\<close>,
      which logs and returns: the callback's own promise is always fulfilled.\<close>
  "visual_unit env vs md acc plan =
     (case acc of (tr, result) \<Rightarrow>
        if visualType plan = Illustration \<and> or_else (prompt plan) [] \<noteq> [] then
          (if vs_provider vs = NanoBanana then
             (case generateWithNanoBanana env (slideIndex plan) (illustration_request md plan) (vs_apiKey vs) of
                Inr imageUrl \<Rightarrow>
                  (tr @ [Call_generateWithNanoBanana (slideIndex plan)],
                   result\<lparr>visuals := (visuals result)(slideIndex plan \<mapsto> imageUrl)\<rparr>)
              | Inl e \<Rightarrow>
                  (tr @ [Call_generateWithNanoBanana (slideIndex plan), ConsoleError (slideIndex plan) e],
                   result))
           else (tr, result))
        else if visualType plan = Chart \<and> data plan \<noteq> None then
          (case data plan of
             None \<Rightarrow> (tr, result)
           | Some d \<Rightarrow>
               (case generateChart env d of
                  Inr chartUrl \<Rightarrow>
                    (tr @ [Call_generateChart (slideIndex plan)],
                     result\<lparr>charts := (charts result)(slideIndex plan \<mapsto> chartUrl)\<rparr>)
                | Inl e \<Rightarrow>
                    (tr @ [Call_generateChart (slideIndex plan), ConsoleError (slideIndex plan) e],
                     result)))
        else if visualType plan = Diagram then
          (tr @ [Call_generateDiagram (slideIndex plan)],
           result\<lparr>diagrams := (diagrams result)(slideIndex plan \<mapsto>
             generateDiagram (or_else (prompt plan) (slideTitle plan)))\<rparr>)
        else (tr, result))"

text \<open>
  \<^verbatim>\<open>await Promise.all(visualPromises)\<close> resumes when every callback has finished. The
  callbacks interleave at their \<^verbatim>\<open>await\<close>s; the model runs them one after the other in
  the order of the plans. Each writes only under its own slide index, and the planner
  gives every plan another index, so the result maps do not depend on that order
  (\<open>generation_order_irrelevant\<close> below).
\<close>

definition run_units ::
  "('u, 'd) Collaborators \<Rightarrow> VisualServiceConfig \<Rightarrow> PaperMetadata \<Rightarrow>
     event list \<times> OrchestrationResult \<Rightarrow> 'd VisualGenerationPlan list \<Rightarrow> event list \<times> OrchestrationResult" where
  "run_units env vs md acc plans = foldl (visual_unit env vs md) acc plans"

definition orchestratePresentation ::
  "('u, 'd) Collaborators \<Rightarrow> string \<Rightarrow> 'u OrchestrationConfig \<Rightarrow>
     event list \<times> (js_error + OrchestrationResult)" where
  \<comment> \<open>The trace of the run and how its promise settles: rejected with an error (\<open>Inl\<close>) or
      fulfilled with the result (\<open>Inr\<close>).\<close>
  "orchestratePresentation env paperText c =
     (case analyzePaperWithService env paperText (textService c) of
        Inl e \<Rightarrow> ([Call_analyzePaper], Inl e)
      | Inr metadata \<Rightarrow>
          (case generateSlidesWithService env metadata (textService c) of
             Inl e \<Rightarrow> ([Call_analyzePaper, Call_generateSlides], Inl e)
           | Inr sl \<Rightarrow>
               (let result = \<lparr>slides = sl, visuals = Map.empty, charts = Map.empty,
                              diagrams = Map.empty\<rparr>;
                    tr = [Call_analyzePaper, Call_generateSlides]
                in
                  if \<not> generateVisuals c \<or> visualService c = None then (tr, Inr result)
                  else
                    (let visualPlans = planVisuals (extractChartData env) sl metadata
                     in
                       case visualService c of
                         None \<Rightarrow> (tr @ [Call_planVisuals], Inl (Error ''Visual service not configured''))
                       | Some vs \<Rightarrow>
                           (case run_units env vs metadata (tr @ [Call_planVisuals], result) visualPlans of
                              (tr', result') \<Rightarrow> (tr', Inr result'))))))"

section \<open>Notions used to state the properties\<close>

subsection \<open>Routing\<close>

definition qualifies :: "ServiceManager \<Rightarrow> string \<Rightarrow> bool" where
  \<comment> \<open>registered, enabled, and either without a health record or recorded healthy\<close>
  "qualifies m sid =
     (case map_of (services m) sid of
        None \<Rightarrow> False
      | Some s \<Rightarrow> enabled (config s) \<and>
          (case map_of (health m) sid of None \<Rightarrow> True | Some h \<Rightarrow> status h = Healthy))"

definition claimed_eligible :: "ServiceManager \<Rightarrow> string \<Rightarrow> bool" where
  \<comment> \<open>The eligibility of the specification: enabled, and healthy, degraded or unknown,
      a missing record counting as unknown.\<close>
  "claimed_eligible m sid =
     (case map_of (services m) sid of
        None \<Rightarrow> False
      | Some s \<Rightarrow> enabled (config s) \<and>
          (case map_of (health m) sid of
             None \<Rightarrow> True
           | Some h \<Rightarrow> status h = Healthy \<or> status h = Degraded \<or> status h = Unknown))"

definition claimed_resolve :: "ServiceManager \<Rightarrow> string \<Rightarrow> AIService option" where
  \<comment> \<open>the resolver of the specification: the first preferred provider that is
      \<^const>\<open>claimed_eligible\<close>\<close>
  "claimed_resolve m t =
     (case List.find (\<lambda>r. task r = t) TASK_ROUTING of
        None \<Rightarrow> None
      | Some r \<Rightarrow>
          (case List.find (claimed_eligible m) (preferredServices r) of
             None \<Rightarrow> None
           | Some sid \<Rightarrow> map_of (services m) sid))"

definition declared_priority :: "AIService \<Rightarrow> int" where
  \<comment> \<open>the priority a record declares, 99 when it declares none\<close>
  "declared_priority s = (case priority s of None \<Rightarrow> 99 | Some p \<Rightarrow> p)"

definition only_enabled :: "bool \<Rightarrow> PartialConfig" where
  \<comment> \<open>the argument \<^verbatim>\<open>{ enabled: b }\<close>, as \<^verbatim>\<open>initializeServices\<close> passes it\<close>
  "only_enabled b = \<lparr>p_apiKey = None, p_endpoint = None, p_model = None,
     p_maxRequestsPerMinute = None, p_timeout = None, p_enabled = Some (Some b),
     p_temperature = None, p_maxTokens = None\<rparr>"

definition configured :: "ServiceManager \<Rightarrow> string \<Rightarrow> PartialConfig \<Rightarrow> ServiceManager" where
  \<comment> \<open>the manager after a call of \<^const>\<open>configureService\<close>\<close>
  "configured m sid c = (case configureService m sid c of Inr m' \<Rightarrow> m' | Inl e \<Rightarrow> m)"

definition degraded_report :: "string \<Rightarrow> ServiceHealth" where
  "degraded_report sid = \<lparr>serviceId = sid, status = Degraded, latency = 2500,
     lastChecked = ''2025-01-01T00:00:00.000Z'', errorRate = 0, remainingQuota = None\<rparr>"

definition manager_degraded :: ServiceManager where
  \<comment> \<open>the default manager after a report that openai-gpt4 is degraded\<close>
  "manager_degraded = updateHealth serviceManager ''openai-gpt4'' (degraded_report ''openai-gpt4'')"

definition manager_preferred_off :: ServiceManager where
  \<comment> \<open>the three preferred text services switched off, local-ollama switched on\<close>
  "manager_preferred_off =
     configured (configured (configured (configured serviceManager
       ''openai-gpt4'' (only_enabled False))
       ''anthropic-claude'' (only_enabled False))
       ''google-gemini'' (only_enabled False))
       ''local-ollama'' (only_enabled True)"

subsection \<open>Planning\<close>

text \<open>The rules of the planner in the words of the specification, first match first.\<close>

definition figure_hint :: "EnhancedSlide \<Rightarrow> bool" where
  "figure_hint slide = (layout slide = LFigure \<or> figure slide \<noteq> None)"

definition process_pattern :: "EnhancedSlide \<Rightarrow> bool" where
  "process_pattern slide =
     (layout slide = LDiagram \<or> str_includes (toLowerCase (title slide)) ''method'')"

definition numeric_pattern :: "EnhancedSlide \<Rightarrow> bool" where
  "numeric_pattern slide =
     (layout slide = LChart \<or>
      list_ex (\<lambda>c. str_includes c ''%'' \<or> str_includes c ''increase'' \<or> str_includes c ''decrease'')
        (content slide))"

definition math_pattern :: "EnhancedSlide \<Rightarrow> bool" where
  "math_pattern slide =
     list_ex (\<lambda>c. str_includes c ''$'' \<or> str_includes c [CHR 0x5C] \<or> str_includes c ''equation'')
       (content slide)"

definition periodic :: "nat \<Rightarrow> bool" where
  \<comment> \<open>every fifth section, counted from zero, the first one left out\<close>
  "periodic index = (index mod 5 = 0 \<and> index > 0)"

definition classify :: "nat \<Rightarrow> EnhancedSlide \<Rightarrow> VisualType" where
  "classify index slide =
     (if figure_hint slide then Illustration
      else if process_pattern slide then Diagram
      else if numeric_pattern slide then Chart
      else if math_pattern slide then Equation
      else if periodic index then Illustration
      else NoVisual)"

subsection \<open>Generation\<close>

text \<open>
  What the unit of one plan comes to, from its plan and its own call alone: an entry
  for one of the three maps, an error caught and logged, or nothing at all (a kind
  without a generator).
\<close>

datatype unit_outcome =
    Stored_visual string
  | Stored_chart string
  | Stored_diagram string
  | Thrown js_error
  | Nothing

definition outcome_of ::
  "('u, 'd) Collaborators \<Rightarrow> VisualServiceConfig \<Rightarrow> PaperMetadata \<Rightarrow> 'd VisualGenerationPlan \<Rightarrow> unit_outcome" where
  "outcome_of env vs md plan =
     (if visualType plan = Illustration \<and> or_else (prompt plan) [] \<noteq> [] then
        (if vs_provider vs = NanoBanana then
           (case generateWithNanoBanana env (slideIndex plan) (illustration_request md plan) (vs_apiKey vs) of
              Inr imageUrl \<Rightarrow> Stored_visual imageUrl
            | Inl e \<Rightarrow> Thrown e)
         else Nothing)
      else if visualType plan = Chart \<and> data plan \<noteq> None then
        (case data plan of
           None \<Rightarrow> Nothing
         | Some d \<Rightarrow> (case generateChart env d of Inr chartUrl \<Rightarrow> Stored_chart chartUrl | Inl e \<Rightarrow> Thrown e))
      else if visualType plan = Diagram then
        Stored_diagram (generateDiagram (or_else (prompt plan) (slideTitle plan)))
      else Nothing)"

definition has_generator :: "VisualServiceConfig \<Rightarrow> 'd VisualGenerationPlan \<Rightarrow> bool" where
  "has_generator vs plan =
     (visualType plan = Diagram \<or> visualType plan = Chart \<or>
      (visualType plan = Illustration \<and> vs_provider vs = NanoBanana))"

definition recorded :: "OrchestrationResult \<Rightarrow> nat set" where
  \<comment> \<open>the slide indices under which the result holds an artifact\<close>
  "recorded r = dom (visuals r) \<union> dom (charts r) \<union> dom (diagrams r)"

definition failed_indices :: "event list \<Rightarrow> nat set" where
  \<comment> \<open>the slide indices whose unit logged a failure\<close>
  "failed_indices tr = {i. \<exists>e. ConsoleError i e \<in> set tr}"

text \<open>
  The part of an outcome that goes to each of the three maps, the store it makes there,
  and the events a unit leaves in the trace.
\<close>

definition stored_visual :: "unit_outcome \<Rightarrow> string option" where
  "stored_visual oc = (case oc of Stored_visual u \<Rightarrow> Some u | _ \<Rightarrow> None)"

definition stored_chart :: "unit_outcome \<Rightarrow> string option" where
  "stored_chart oc = (case oc of Stored_chart u \<Rightarrow> Some u | _ \<Rightarrow> None)"

definition stored_diagram :: "unit_outcome \<Rightarrow> string option" where
  "stored_diagram oc = (case oc of Stored_diagram u \<Rightarrow> Some u | _ \<Rightarrow> None)"

definition put :: "(nat \<rightharpoonup> string) \<Rightarrow> nat \<Rightarrow> string option \<Rightarrow> (nat \<rightharpoonup> string)" where
  "put m i v = (case v of None \<Rightarrow> m | Some u \<Rightarrow> m(i \<mapsto> u))"

definition unit_call :: "'d VisualGenerationPlan \<Rightarrow> event" where
  "unit_call p =
     (if visualType p = Illustration then Call_generateWithNanoBanana (slideIndex p)
      else if visualType p = Chart then Call_generateChart (slideIndex p)
      else Call_generateDiagram (slideIndex p))"

definition unit_events ::
  "('u, 'd) Collaborators \<Rightarrow> VisualServiceConfig \<Rightarrow> PaperMetadata \<Rightarrow> 'd VisualGenerationPlan \<Rightarrow> event list" where
  "unit_events env vs md p =
     (case outcome_of env vs md p of
        Nothing \<Rightarrow> []
      | Thrown e \<Rightarrow> [unit_call p, ConsoleError (slideIndex p) e]
      | _ \<Rightarrow> [unit_call p])"

subsection \<open>Sample inputs\<close>

definition sample_metadata :: PaperMetadata where
  "sample_metadata = \<lparr>md_title = ''Sparse Attention'', md_authors = [''A. Author''],
     md_affiliations = [''Some University''], md_abstract = ''We study attention.'',
     md_keywords = [''machine learning'']\<rparr>"

definition plain_slide :: "string \<Rightarrow> string list \<Rightarrow> EnhancedSlide" where
  "plain_slide t c = \<lparr>slide_id = 0, title = t, content = c, layout = LContent, figure = None\<rparr>"

definition sample_slides :: "EnhancedSlide list" where
  "sample_slides = [
     plain_slide ''Introduction'' [''Background and motivation''],
     (plain_slide ''Overview figure'' [''The architecture''])\<lparr>layout := LFigure\<rparr>,
     plain_slide ''Methodology'' [''Collect'', ''Train''],
     plain_slide ''Results'' [''Accuracy: 95%''],
     plain_slide ''Loss'' [''L = $x^2$''],
     plain_slide ''Discussion'' [''Limits of the study''],
     plain_slide ''Thanks'' [''Questions'']
   ]"

definition sample_env ::
  "(js_error + PaperMetadata) \<Rightarrow> EnhancedSlide list \<Rightarrow> (nat \<Rightarrow> js_error + string) \<Rightarrow>
     (js_error + string) \<Rightarrow> (unit, string list) Collaborators" where
  \<comment> \<open>collaborators with a fixed analysis answer, fixed slides, an image service whose
      answer depends on the slide index, and a fixed chart answer; the chart data are
      the content lines themselves\<close>
  "sample_env analysis sl nano chart =
     \<lparr>analyzePaperWithService = (\<lambda>text u. analysis),
      generateSlidesWithService = (\<lambda>md u. Inr sl),
      extractChartData = (\<lambda>c. c),
      generateWithNanoBanana = (\<lambda>i req key. nano i),
      generateChart = (\<lambda>d. chart)\<rparr>"

definition nano_fails_on :: "nat \<Rightarrow> nat \<Rightarrow> js_error + string" where
  "nano_fails_on k i = (if i = k then Inl (Error ''Nano Banana API error: 500'') else Inr ''https://img.example/ok.png'')"

definition config_with :: "VisualServiceConfig option \<Rightarrow> bool \<Rightarrow> unit OrchestrationConfig" where
  "config_with vs g = \<lparr>textService = (), visualService = vs, generateVisuals = g\<rparr>"

definition nano_service :: VisualServiceConfig where
  "nano_service = \<lparr>vs_provider = NanoBanana, vs_apiKey = ''nb-key''\<rparr>"

text \<open>Further sample inputs: slides, collaborators that fail, and the two configurations.\<close>

definition chart_slides :: "EnhancedSlide list" where
  "chart_slides = [
     plain_slide ''Introduction'' [''Background and motivation''],
     (plain_slide ''Overview figure'' [''The architecture''])\<lparr>layout := LFigure\<rparr>,
     plain_slide ''Results'' [''Accuracy: 95%'']
   ]"

definition two_slides :: "EnhancedSlide list" where
  "two_slides = [
     (plain_slide ''Overview figure'' [''The architecture''])\<lparr>layout := LFigure\<rparr>,
     plain_slide ''Loss'' [''L = $x^2$'']
   ]"

definition nano_down :: "nat \<Rightarrow> js_error + string" where
  "nano_down i = Inl (Error ''Nano Banana API error: 503'')"

definition mixed_env :: "(unit, string list) Collaborators" where
  "mixed_env = sample_env (Inr sample_metadata) sample_slides (nano_fails_on 1)
     (Inr ''https://quickchart.io/chart?c=%7B%7D'')"

definition failing_env :: "(unit, string list) Collaborators" where
  "failing_env = sample_env (Inr sample_metadata) chart_slides nano_down (Inl (Error ''URI malformed''))"

definition two_env :: "(unit, string list) Collaborators" where
  "two_env = sample_env (Inr sample_metadata) two_slides nano_down (Inl (Error ''URI malformed''))"

definition no_analysis_env :: "(unit, string list) Collaborators" where
  "no_analysis_env = sample_env (Inl (Error ''Invalid response format'')) sample_slides nano_down
     (Inl (Error ''URI malformed''))"

definition visuals_on :: "unit OrchestrationConfig" where
  "visuals_on = config_with (Some nano_service) True"

definition visuals_off :: "unit OrchestrationConfig" where
  "visuals_off = config_with (Some nano_service) False"

section \<open>Routing: what getServiceForTask returns\<close>

lemma walk_preferred_find:
  "walk_preferred m ps =
     (case List.find (qualifies m) ps of None \<Rightarrow> None | Some sid \<Rightarrow> map_of (services m) sid)"
  by (induction ps) (auto simp: qualifies_def split: option.splits)

lemma walk_preferred_Some:
  "walk_preferred m ps = Some s \<Longrightarrow>
     \<exists>sid \<in> set ps. qualifies m sid \<and> map_of (services m) sid = Some s"
  by (induction ps) (auto simp: qualifies_def split: option.splits if_splits)

lemma paper_analysis_route:
  "List.find (\<lambda>r. task r = ''paper-analysis'') TASK_ROUTING =
     Some (route ''paper-analysis'' TextAnalysis
       [''openai-gpt4'', ''anthropic-claude'', ''google-gemini'', ''local-ollama''] NextAvailable)"
  by (simp add: TASK_ROUTING_def route_def)

lemma slide_content_route:
  "List.find (\<lambda>r. task r = ''slide-content-generation'') TASK_ROUTING =
     Some (route ''slide-content-generation'' TextAnalysis
       [''openai-gpt4'', ''anthropic-claude'', ''google-gemini''] NextAvailable)"
  by (simp add: TASK_ROUTING_def route_def)

text \<open>
  Claim C1, as the code has it. For every task of the routing table, getServiceForTask
  walks the route's preferredServices in order and returns the first provider that is
  registered, enabled, and either has no health record or is recorded healthy; when no
  preferred provider is such, it returns null. A provider recorded degraded, unknown or
  down is skipped, as a disabled one is.
\<close>

theorem resolve_first_healthy:
  assumes "List.find (\<lambda>r. task r = t) TASK_ROUTING = Some r"
  shows "getServiceForTask m t =
     (case List.find (qualifies m) (preferredServices r) of
        None \<Rightarrow> None
      | Some sid \<Rightarrow> map_of (services m) sid)"
  using assms by (simp add: getServiceForTask_def walk_preferred_find)

theorem resolve_first_healthy_witness:
  "List.find (\<lambda>r. task r = ''paper-analysis'') TASK_ROUTING =
     Some (route ''paper-analysis'' TextAnalysis
       [''openai-gpt4'', ''anthropic-claude'', ''google-gemini'', ''local-ollama''] NextAvailable)
   \<and> List.find (qualifies manager_degraded)
       [''openai-gpt4'', ''anthropic-claude'', ''google-gemini'', ''local-ollama''] =
     Some ''anthropic-claude''
   \<and> map_option service_id (getServiceForTask manager_degraded ''paper-analysis'') =
     Some ''anthropic-claude''"
proof -
  have q: "List.find (qualifies manager_degraded)
      [''openai-gpt4'', ''anthropic-claude'', ''google-gemini'', ''local-ollama''] =
      Some ''anthropic-claude''"
    by code_simp
  have s: "map_option service_id (map_of (services manager_degraded) ''anthropic-claude'') =
      Some ''anthropic-claude''"
    by code_simp
  from resolve_first_healthy [OF paper_analysis_route, of manager_degraded] q s paper_analysis_route
  show ?thesis
    by (simp add: route_def)
qed

text \<open>
  Against claim C1 as stated: with openai-gpt4 enabled and recorded degraded, the
  resolver of the specification returns openai-gpt4, the first preferred provider of
  paper-analysis; getServiceForTask passes it over and returns anthropic-claude.
\<close>

theorem degraded_provider_skipped:
  "map_option service_id (getServiceForTask manager_degraded ''paper-analysis'') = Some ''anthropic-claude''
   \<and> map_option service_id (claimed_resolve manager_degraded ''paper-analysis'') = Some ''openai-gpt4''
   \<and> getServiceForTask manager_degraded ''paper-analysis'' \<noteq> claimed_resolve manager_degraded ''paper-analysis''"
  by code_simp

text \<open>
  Claim C2, as the code has it. Whatever the fallbackStrategy of a route, when no provider
  of its preferredServices qualifies, getServiceForTask returns null; and a provider it
  returns is always one of the preferred list. Providers outside of that list are never
  looked at.
\<close>

theorem no_fallback_scan:
  assumes "List.find (\<lambda>r. task r = t) TASK_ROUTING = Some r"
  shows "((\<forall>sid \<in> set (preferredServices r). \<not> qualifies m sid) \<longrightarrow> getServiceForTask m t = None)
       \<and> (\<forall>s. getServiceForTask m t = Some s \<longrightarrow>
             (\<exists>sid \<in> set (preferredServices r). qualifies m sid \<and> map_of (services m) sid = Some s))"
proof -
  have g: "getServiceForTask m t = walk_preferred m (preferredServices r)"
    using assms by (simp add: getServiceForTask_def)
  have none: "(\<forall>sid \<in> set (preferredServices r). \<not> qualifies m sid) \<longrightarrow>
      walk_preferred m (preferredServices r) = None"
  proof
    assume "\<forall>sid \<in> set (preferredServices r). \<not> qualifies m sid"
    then have "List.find (qualifies m) (preferredServices r) = None"
      by (simp add: find_None_iff)
    then show "walk_preferred m (preferredServices r) = None"
      by (simp add: walk_preferred_find)
  qed
  from g none walk_preferred_Some [of m "preferredServices r"] show ?thesis
    by simp
qed

theorem no_fallback_scan_witness:
  "List.find (\<lambda>r. task r = ''slide-content-generation'') TASK_ROUTING =
     Some (route ''slide-content-generation'' TextAnalysis
       [''openai-gpt4'', ''anthropic-claude'', ''google-gemini''] NextAvailable)
   \<and> \<not> qualifies manager_preferred_off ''openai-gpt4''
   \<and> \<not> qualifies manager_preferred_off ''anthropic-claude''
   \<and> \<not> qualifies manager_preferred_off ''google-gemini''
   \<and> getServiceForTask manager_preferred_off ''slide-content-generation'' = None"
proof -
  have q: "\<not> qualifies manager_preferred_off ''openai-gpt4''
      \<and> \<not> qualifies manager_preferred_off ''anthropic-claude''
      \<and> \<not> qualifies manager_preferred_off ''google-gemini''"
    by code_simp
  from no_fallback_scan [OF slide_content_route, of manager_preferred_off] q slide_content_route
  show ?thesis
    by (simp add: route_def)
qed

text \<open>
  Against claim C2 as stated: the route of slide-content-generation declares
  next-available; its three preferred providers are disabled; local-ollama is a
  registered text-analysis provider, enabled and without a health record, the only one
  getServicesByType lists. getServiceForTask returns null.
\<close>

theorem fallback_not_taken:
  "map_option fallbackStrategy
     (List.find (\<lambda>r. task r = ''slide-content-generation'') TASK_ROUTING) = Some NextAvailable
   \<and> map service_id (getServicesByType manager_preferred_off TextAnalysis) = [''local-ollama'']
   \<and> map_of (health manager_preferred_off) ''local-ollama'' = None
   \<and> getServiceForTask manager_preferred_off ''slide-content-generation'' = None"
  by code_simp

text \<open>
  Claim C8, as the code has it. A task name that the routing table does not hold makes
  getServiceForTask return null: no provider, and no exception, since the method has no
  other outcome. The same holds of the second resolver for a name that, lowered, is no
  key of its taskMap, also when the name is a property that every object inherits
  (such as \<^verbatim>\<open>constructor\<close>): it returns undefined. The code has no UnknownTaskError;
  the null is the one it also returns for a task of the table that finds no provider.
\<close>

theorem unknown_task_null:
  "(t \<notin> set (map task TASK_ROUTING) \<longrightarrow> getServiceForTask m t = None)
   \<and> (toLowerCase t \<notin> set (map fst taskMap) \<longrightarrow> getServiceForTask_lib t svcs = None)"
proof -
  have a: "getServiceForTask m t = None" if "t \<notin> set (map task TASK_ROUTING)"
  proof -
    from that have "List.find (\<lambda>r. task r = t) TASK_ROUTING = None"
      by (auto simp: find_None_iff)
    then show ?thesis by (simp add: getServiceForTask_def)
  qed
  have b: "getServiceForTask_lib t svcs = None" if "toLowerCase t \<notin> set (map fst taskMap)"
  proof -
    from that have "map_of taskMap (toLowerCase t) = None"
      by (simp add: map_of_eq_None_iff)
    then have "taskMap_read (toLowerCase t) = Inherited \<or> taskMap_read (toLowerCase t) = Undefined"
      by (simp add: taskMap_read_def)
    moreover have "List.find (\<lambda>s. False) svcs = None"
      by (simp add: find_None_iff)
    ultimately show ?thesis
      by (auto simp: getServiceForTask_lib_def)
  qed
  from a b show ?thesis by blast
qed

theorem unknown_task_null_witness:
  "''Constructor'' \<notin> set (map task TASK_ROUTING)
   \<and> getServiceForTask serviceManager ''Constructor'' = None
   \<and> toLowerCase ''Constructor'' = ''constructor''
   \<and> taskMap_read ''constructor'' = Inherited
   \<and> ''constructor'' \<notin> set (map fst taskMap)
   \<and> getServiceForTask_lib ''Constructor'' SERVICE_REGISTRY = None"
proof -
  have h1: "''Constructor'' \<notin> set (map task TASK_ROUTING)" by code_simp
  have h2: "toLowerCase ''Constructor'' = ''constructor''" by code_simp
  have h3: "''constructor'' \<notin> set (map fst taskMap)" by code_simp
  have h4: "taskMap_read ''constructor'' = Inherited" by code_simp
  from unknown_task_null [of "''Constructor''" serviceManager SERVICE_REGISTRY] h1 h2 h3 h4
  show ?thesis by simp
qed

text \<open>
  Against claim C8 as stated: no error tells an unknown task apart. With the three
  preferred text services switched off, getServiceForTask returns the same null for
  translate, which the routing table does not hold, and for slide-content-generation,
  which it holds. The second resolver returns the same undefined for translate, no key
  of its taskMap, and for voice, a key whose type has no enabled service in the list.
\<close>

theorem unknown_task_same_null:
  "''translate'' \<notin> set (map task TASK_ROUTING)
   \<and> ''slide-content-generation'' \<in> set (map task TASK_ROUTING)
   \<and> getServiceForTask manager_preferred_off ''translate'' = None
   \<and> getServiceForTask manager_preferred_off ''slide-content-generation'' = None
   \<and> ''translate'' \<notin> set (map fst taskMap)
   \<and> ''voice'' \<in> set (map fst taskMap)
   \<and> getServiceForTask_lib ''translate'' SERVICE_REGISTRY = None
   \<and> getServiceForTask_lib ''voice'' SERVICE_REGISTRY = None"
  by code_simp

section \<open>The registry: configureService and getServicesByType\<close>

text \<open>
  Claim C9, as the code has it. configureService never fails. For an id that is not
  registered it does nothing and returns normally, the manager unchanged. For a
  registered id it replaces that provider's config by the merge of the old config and
  the partial one; every other record, the order of the records and the health map
  stay as they were.
\<close>

theorem configure_only_that_record:
  "(map_of (services m) sid = None \<longrightarrow> configureService m sid c = Inr m)
   \<and> (\<forall>service. map_of (services m) sid = Some service \<longrightarrow>
        (\<exists>m'. configureService m sid c = Inr m'
           \<and> map_of (services m') = (map_of (services m))(sid \<mapsto> service\<lparr>config := merge_config (config service) c\<rparr>)
           \<and> map fst (services m') = map fst (services m)
           \<and> health m' = health m))"
proof -
  have none: "configureService m sid c = Inr m" if "map_of (services m) sid = None"
    using that by (simp add: configureService_def)
  have some: "\<exists>m'. configureService m sid c = Inr m'
           \<and> map_of (services m') = (map_of (services m))(sid \<mapsto> service\<lparr>config := merge_config (config service) c\<rparr>)
           \<and> map fst (services m') = map fst (services m)
           \<and> health m' = health m"
    if s: "map_of (services m) sid = Some service" for service
  proof -
    from s have "(sid, service) \<in> set (services m)"
      by (rule map_of_SomeD)
    then have k: "sid \<in> set (map fst (services m))"
      by force
    from s k show ?thesis
      by (simp add: configureService_def update_conv' update_keys)
  qed
  from none some show ?thesis by blast
qed

theorem configure_only_that_record_witness:
  "map_option (enabled \<circ> config) (map_of (services serviceManager) ''local-ollama'') = Some False
   \<and> map_option (enabled \<circ> config) (map_of (services (configured serviceManager ''local-ollama'' (only_enabled True))) ''local-ollama'') = Some True
   \<and> map_of (services (configured serviceManager ''local-ollama'' (only_enabled True))) ''mermaid'' = map_of (services serviceManager) ''mermaid''
   \<and> map_of (services serviceManager) ''no-such-service'' = None
   \<and> configureService serviceManager ''no-such-service'' (only_enabled True) = Inr serviceManager"
proof -
  have a: "map_option (enabled \<circ> config) (map_of (services serviceManager) ''local-ollama'') = Some False"
    by code_simp
  have b: "map_option (enabled \<circ> config) (map_of (services (configured serviceManager ''local-ollama'' (only_enabled True))) ''local-ollama'') = Some True"
    by code_simp
  have c: "map_of (services serviceManager) ''no-such-service'' = None"
    by code_simp
  have d: "map_of (services (configured serviceManager ''local-ollama'' (only_enabled True))) ''mermaid'' = map_of (services serviceManager) ''mermaid''"
    by code_simp
  from configure_only_that_record [of serviceManager "''no-such-service''" "only_enabled True"]
    configure_only_that_record [of serviceManager "''local-ollama''" "only_enabled True"] a b c d
  show ?thesis by simp
qed

text \<open>
  Against claim C9 as stated: configuring an id that is not registered returns
  normally with the manager unchanged; no error is raised.
\<close>

theorem configure_unknown_silent:
  "map_of (services serviceManager) ''no-such-service'' = None
   \<and> configureService serviceManager ''no-such-service'' (only_enabled True) = Inr serviceManager"
  by code_simp

lemma priority_or_99_declared:
  "priority s \<noteq> Some 0 \<Longrightarrow> priority_or_99 s = declared_priority s"
  by (auto simp: priority_or_99_def declared_priority_def split: option.splits)

text \<open>
  Claim C7, as the code has it. When no registered provider has priority 0,
  getServicesByType returns exactly the enabled registered providers of the type (each
  as often as it is registered), in ascending order of declared priority (99 for a
  provider that declares none), providers of equal priority in registration order. The
  health map plays no part. The function returns a fresh list and writes nothing.
\<close>

theorem listByType_enabled_sorted:
  assumes nz: "\<forall>s \<in> set (map snd (services m)). priority s \<noteq> Some 0"
  shows "mset (getServicesByType m ty) =
           mset (filter (\<lambda>s. service_type s = ty \<and> enabled (config s)) (map snd (services m)))
       \<and> sorted (map declared_priority (getServicesByType m ty))
       \<and> (\<forall>k. filter (\<lambda>s. declared_priority s = k) (getServicesByType m ty) =
               filter (\<lambda>s. declared_priority s = k)
                 (filter (\<lambda>s. service_type s = ty \<and> enabled (config s)) (map snd (services m))))
       \<and> getServicesByType (m\<lparr>health := h\<rparr>) ty = getServicesByType m ty"
proof -
  let ?xs = "filter (\<lambda>s. service_type s = ty \<and> enabled (config s)) (map snd (services m))"
  have key: "\<And>s. s \<in> set ?xs \<Longrightarrow> priority_or_99 s = declared_priority s"
    using nz by (auto intro: priority_or_99_declared)
  have res: "getServicesByType m ty = sort_key priority_or_99 ?xs"
    by (simp add: getServicesByType_def)
  have m1: "mset (getServicesByType m ty) = mset ?xs"
    by (simp add: res)
  have "sorted (map priority_or_99 (sort_key priority_or_99 ?xs))"
    by (rule sorted_sort_key)
  moreover have "map priority_or_99 (sort_key priority_or_99 ?xs) = map declared_priority (sort_key priority_or_99 ?xs)"
    by (rule map_cong) (simp_all add: key del: set_filter)
  ultimately have m2: "sorted (map declared_priority (getServicesByType m ty))"
    by (simp add: res)
  have m3: "filter (\<lambda>s. declared_priority s = k) (getServicesByType m ty) = filter (\<lambda>s. declared_priority s = k) ?xs" for k
  proof -
    have "filter (\<lambda>s. declared_priority s = k) (sort_key priority_or_99 ?xs) = filter (\<lambda>s. priority_or_99 s = k) (sort_key priority_or_99 ?xs)"
      by (rule filter_cong) (simp_all add: key del: set_filter)
    also have "\<dots> = filter (\<lambda>s. priority_or_99 s = k) ?xs"
      by (rule sort_key_stable)
    also have "\<dots> = filter (\<lambda>s. declared_priority s = k) ?xs"
      by (rule filter_cong) (simp_all add: key del: set_filter)
    finally show ?thesis by (simp add: res)
  qed
  have m4: "getServicesByType (m\<lparr>health := h\<rparr>) ty = getServicesByType m ty"
    by (simp add: getServicesByType_def)
  from m1 m2 m3 m4 show ?thesis by blast
qed

lemma default_priorities_nonzero:
  "list_all (\<lambda>s. priority s \<noteq> Some 0) (map snd (services serviceManager))"
  by code_simp

theorem listByType_enabled_sorted_witness:
  "list_all (\<lambda>s. priority s \<noteq> Some 0) (map snd (services serviceManager))
   \<and> map service_id (getServicesByType serviceManager ImageGeneration) = [''nano-banana'', ''dall-e-3'']
   \<and> sorted (map declared_priority (getServicesByType serviceManager ImageGeneration))"
proof -
  have nz: "\<forall>s \<in> set (map snd (services serviceManager)). priority s \<noteq> Some 0"
    using default_priorities_nonzero by (simp only: list_all_iff)
  have v: "map service_id (getServicesByType serviceManager ImageGeneration) = [''nano-banana'', ''dall-e-3'']"
    by code_simp
  from listByType_enabled_sorted [OF nz, of ImageGeneration] v default_priorities_nonzero
  show ?thesis by simp
qed

text \<open>
  Against claim C7 as stated: local-ollama is a registered text-analysis provider,
  disabled by default, and getServicesByType leaves it out.
\<close>

theorem disabled_provider_not_listed:
  "''local-ollama'' \<in> set (map service_id (filter (\<lambda>s. service_type s = TextAnalysis) (map snd (services serviceManager))))
   \<and> ''local-ollama'' \<notin> set (map service_id (getServicesByType serviceManager TextAnalysis))"
  by code_simp

section \<open>The work planner\<close>

lemma plan_for_index: "slideIndex (plan_for xcd md i s) = i"
  by (simp add: plan_for_def Let_def)


lemma plan_for_classify: "visualType (plan_for xcd md i s) = classify i s"
  by (simp add: plan_for_def classify_def figure_hint_def process_pattern_def numeric_pattern_def
      math_pattern_def periodic_def Let_def)

lemma planVisuals_loop_eq:
  "planVisuals_loop xcd md n sl plans =
     plans @ filter (\<lambda>p. visualType p \<noteq> NoVisual) (map (\<lambda>(i, s). plan_for xcd md i s) (enumerate n sl))"
  by (induction sl arbitrary: n plans) (simp_all add: Let_def)

lemma planVisuals_eq:
  "planVisuals xcd sl md =
     filter (\<lambda>p. visualType p \<noteq> NoVisual) (map (\<lambda>(i, s). plan_for xcd md i s) (enumerate 0 sl))"
  by (simp add: planVisuals_def planVisuals_loop_eq)




lemma planVisuals_distinct: "distinct (map slideIndex (planVisuals xcd sl md))"
proof -
  have "map slideIndex (planVisuals xcd sl md) = map fst (filter (\<lambda>(i, s). classify i s \<noteq> NoVisual) (enumerate 0 sl))"
    by (simp add: planVisuals_eq filter_map comp_def case_prod_unfold plan_for_index plan_for_classify)
  moreover have "distinct (map fst (filter (\<lambda>(i, s). classify i s \<noteq> NoVisual) (enumerate 0 sl)))"
    by (rule distinct_map_filter) simp
  ultimately show ?thesis by simp
qed

lemma planVisuals_member:
  assumes "p \<in> set (planVisuals xcd sl md)"
  shows "\<exists>i s. p = plan_for xcd md i s \<and> i < length sl \<and> s = sl ! i"
  using assms by (auto simp: planVisuals_eq in_set_enumerate_eq)

lemma plan_for_prompt:
  "visualType (plan_for xcd md i s) = Illustration \<Longrightarrow> or_else (prompt (plan_for xcd md i s)) [] \<noteq> []"
  by (auto simp: plan_for_def Let_def or_else_def split: if_splits option.splits)

lemma plan_for_data:
  "visualType (plan_for xcd md i s) = Chart \<Longrightarrow> data (plan_for xcd md i s) \<noteq> None"
  by (auto simp: plan_for_def Let_def split: if_splits)

section \<open>The generation stage\<close>

lemma visual_unit_step:
  "visual_unit env vs md (tr, r) p =
     (tr @ unit_events env vs md p,
      r\<lparr>visuals := put (visuals r) (slideIndex p) (stored_visual (outcome_of env vs md p)),
        charts := put (charts r) (slideIndex p) (stored_chart (outcome_of env vs md p)),
        diagrams := put (diagrams r) (slideIndex p) (stored_diagram (outcome_of env vs md p))\<rparr>)"
  by (auto simp: visual_unit_def outcome_of_def unit_events_def unit_call_def put_def
      stored_visual_def stored_chart_def stored_diagram_def split: sum.splits option.splits)

lemma run_units_Nil: "run_units env vs md acc [] = acc"
  by (simp add: run_units_def)

lemma run_units_Cons:
  "run_units env vs md acc (p # ps) = run_units env vs md (visual_unit env vs md acc p) ps"
  by (simp add: run_units_def)

lemma run_units_trace:
  "fst (run_units env vs md (tr, r) ps) = tr @ concat (map (unit_events env vs md) ps)"
  by (induction ps arbitrary: tr r) (simp_all add: run_units_Nil run_units_Cons visual_unit_step)

lemma run_units_slides:
  "slides (snd (run_units env vs md (tr, r) ps)) = slides r"
  by (induction ps arbitrary: tr r) (simp_all add: run_units_Nil run_units_Cons visual_unit_step)

lemma run_units_elsewhere:
  assumes "i \<notin> slideIndex ` set ps"
  shows "visuals (snd (run_units env vs md (tr, r) ps)) i = visuals r i
       \<and> charts (snd (run_units env vs md (tr, r) ps)) i = charts r i
       \<and> diagrams (snd (run_units env vs md (tr, r) ps)) i = diagrams r i"
  using assms
  by (induction ps arbitrary: tr r)
     (auto simp: run_units_Nil run_units_Cons visual_unit_step put_def split: option.splits)

lemma run_units_at:
  assumes "distinct (map slideIndex ps)" and "p \<in> set ps"
  shows "visuals (snd (run_units env vs md (tr, r) ps)) (slideIndex p) =
           put (visuals r) (slideIndex p) (stored_visual (outcome_of env vs md p)) (slideIndex p)
       \<and> charts (snd (run_units env vs md (tr, r) ps)) (slideIndex p) =
           put (charts r) (slideIndex p) (stored_chart (outcome_of env vs md p)) (slideIndex p)
       \<and> diagrams (snd (run_units env vs md (tr, r) ps)) (slideIndex p) =
           put (diagrams r) (slideIndex p) (stored_diagram (outcome_of env vs md p)) (slideIndex p)"
  using assms
proof (induction ps arbitrary: tr r)
  case Nil
  then show ?case by simp
next
  case (Cons x xs)
  show ?case
  proof (cases "p = x")
    case True
    with Cons.prems have "slideIndex p \<notin> slideIndex ` set xs" by auto
    then show ?thesis
      using True by (simp add: run_units_Cons visual_unit_step run_units_elsewhere)
  next
    case False
    with Cons.prems have px: "p \<in> set xs" and d: "distinct (map slideIndex xs)"
      and nx: "slideIndex x \<notin> slideIndex ` set xs" by auto
    from px have "slideIndex p \<in> slideIndex ` set xs" by (rule imageI)
    with nx have ne: "slideIndex p \<noteq> slideIndex x" by metis
    from Cons.IH [OF d px] ne show ?thesis
      by (simp add: run_units_Cons visual_unit_step put_def split: option.splits)
  qed
qed

lemma run_units_dom:
  assumes d: "distinct (map slideIndex ps)"
    and e: "visuals r0 = Map.empty" "charts r0 = Map.empty" "diagrams r0 = Map.empty"
  shows "dom (visuals (snd (run_units env vs md (tr0, r0) ps))) =
           slideIndex ` {p \<in> set ps. stored_visual (outcome_of env vs md p) \<noteq> None}"
    and "dom (charts (snd (run_units env vs md (tr0, r0) ps))) =
           slideIndex ` {p \<in> set ps. stored_chart (outcome_of env vs md p) \<noteq> None}"
    and "dom (diagrams (snd (run_units env vs md (tr0, r0) ps))) =
           slideIndex ` {p \<in> set ps. stored_diagram (outcome_of env vs md p) \<noteq> None}"
proof -
  let ?r = "snd (run_units env vs md (tr0, r0) ps)"
  have at: "visuals ?r (slideIndex p) = stored_visual (outcome_of env vs md p)
      \<and> charts ?r (slideIndex p) = stored_chart (outcome_of env vs md p)
      \<and> diagrams ?r (slideIndex p) = stored_diagram (outcome_of env vs md p)" if "p \<in> set ps" for p
    using run_units_at [OF d that, of env vs md tr0 r0] e
    by (simp add: put_def split: option.splits)
  have out: "visuals ?r i = None \<and> charts ?r i = None \<and> diagrams ?r i = None"
    if "i \<notin> slideIndex ` set ps" for i
    using run_units_elsewhere [OF that, of env vs md tr0 r0] e by simp
  show "dom (visuals ?r) = slideIndex ` {p \<in> set ps. stored_visual (outcome_of env vs md p) \<noteq> None}"
  proof (rule set_eqI)
    fix i
    show "i \<in> dom (visuals ?r) \<longleftrightarrow> i \<in> slideIndex ` {p \<in> set ps. stored_visual (outcome_of env vs md p) \<noteq> None}"
    proof (cases "i \<in> slideIndex ` set ps")
      case True
      then obtain p where "p \<in> set ps" "i = slideIndex p" by auto
      with at show ?thesis by (auto simp: dom_def) (metis at)+
    next
      case False
      with out show ?thesis by (auto simp: dom_def)
    qed
  qed
  show "dom (charts ?r) = slideIndex ` {p \<in> set ps. stored_chart (outcome_of env vs md p) \<noteq> None}"
  proof (rule set_eqI)
    fix i
    show "i \<in> dom (charts ?r) \<longleftrightarrow> i \<in> slideIndex ` {p \<in> set ps. stored_chart (outcome_of env vs md p) \<noteq> None}"
    proof (cases "i \<in> slideIndex ` set ps")
      case True
      then obtain p where "p \<in> set ps" "i = slideIndex p" by auto
      with at show ?thesis by (auto simp: dom_def) (metis at)+
    next
      case False
      with out show ?thesis by (auto simp: dom_def)
    qed
  qed
  show "dom (diagrams ?r) = slideIndex ` {p \<in> set ps. stored_diagram (outcome_of env vs md p) \<noteq> None}"
  proof (rule set_eqI)
    fix i
    show "i \<in> dom (diagrams ?r) \<longleftrightarrow> i \<in> slideIndex ` {p \<in> set ps. stored_diagram (outcome_of env vs md p) \<noteq> None}"
    proof (cases "i \<in> slideIndex ` set ps")
      case True
      then obtain p where "p \<in> set ps" "i = slideIndex p" by auto
      with at show ?thesis by (auto simp: dom_def) (metis at)+
    next
      case False
      with out show ?thesis by (auto simp: dom_def)
    qed
  qed
qed

lemma unit_events_error:
  "ConsoleError i e \<in> set (unit_events env vs md p) \<longleftrightarrow> i = slideIndex p \<and> outcome_of env vs md p = Thrown e"
  by (auto simp: unit_events_def unit_call_def split: unit_outcome.splits)

lemma run_units_errors:
  "ConsoleError i e \<in> set (fst (run_units env vs md (tr0, r0) ps)) \<longleftrightarrow>
     ConsoleError i e \<in> set tr0 \<or> (\<exists>p \<in> set ps. i = slideIndex p \<and> outcome_of env vs md p = Thrown e)"
  by (auto simp: run_units_trace unit_events_error)

lemma run_units_failed:
  "failed_indices (fst (run_units env vs md (tr0, r0) ps)) =
     failed_indices tr0 \<union> slideIndex ` {p \<in> set ps. \<exists>e. outcome_of env vs md p = Thrown e}"
  by (auto simp: failed_indices_def run_units_errors)

lemma orchestrate_generation:
  assumes "analyzePaperWithService env txt (textService c) = Inr md"
    and "generateSlidesWithService env md (textService c) = Inr sl"
    and "generateVisuals c" and "visualService c = Some vs"
  shows "orchestratePresentation env txt c =
     (fst (run_units env vs md ([Call_analyzePaper, Call_generateSlides, Call_planVisuals],
            \<lparr>slides = sl, visuals = Map.empty, charts = Map.empty, diagrams = Map.empty\<rparr>)
            (planVisuals (extractChartData env) sl md)),
      Inr (snd (run_units env vs md ([Call_analyzePaper, Call_generateSlides, Call_planVisuals],
            \<lparr>slides = sl, visuals = Map.empty, charts = Map.empty, diagrams = Map.empty\<rparr>)
            (planVisuals (extractChartData env) sl md))))"
  using assms by (simp add: orchestratePresentation_def Let_def split: prod.splits)

lemma planned_outcome_Nothing:
  assumes "p \<in> set (planVisuals xcd sl md)"
  shows "outcome_of env vs md p = Nothing \<longleftrightarrow> \<not> has_generator vs p"
proof -
  from assms obtain i s where p: "p = plan_for xcd md i s"
    using planVisuals_member by blast
  from assms have nv: "visualType p \<noteq> NoVisual"
    by (simp add: planVisuals_eq)
  have pr: "visualType p = Illustration \<Longrightarrow> or_else (prompt p) [] \<noteq> []"
    unfolding p by (rule plan_for_prompt)
  have da: "visualType p = Chart \<Longrightarrow> data p \<noteq> None"
    unfolding p by (rule plan_for_data)
  show ?thesis
    using nv pr da
    by (cases "visualType p")
       (auto simp: outcome_of_def has_generator_def split: sum.splits option.splits)
qed

lemma outcome_cases:
  "(stored_visual oc \<noteq> None \<or> stored_chart oc \<noteq> None \<or> stored_diagram oc \<noteq> None \<or> (\<exists>e. oc = Thrown e))
     \<longleftrightarrow> oc \<noteq> Nothing"
  by (cases oc) (simp_all add: stored_visual_def stored_chart_def stored_diagram_def)

lemma outcome_exclusive:
  "\<not> (stored_visual oc \<noteq> None \<and> stored_chart oc \<noteq> None)"
  "\<not> (stored_visual oc \<noteq> None \<and> stored_diagram oc \<noteq> None)"
  "\<not> (stored_chart oc \<noteq> None \<and> stored_diagram oc \<noteq> None)"
  "\<not> ((stored_visual oc \<noteq> None \<or> stored_chart oc \<noteq> None \<or> stored_diagram oc \<noteq> None) \<and> (\<exists>e. oc = Thrown e))"
  by (cases oc; simp add: stored_visual_def stored_chart_def stored_diagram_def)+

lemma image_disjoint:
  assumes "inj_on f S" and "\<And>x. x \<in> S \<Longrightarrow> \<not> (P x \<and> Q x)"
  shows "f ` {x \<in> S. P x} \<inter> f ` {x \<in> S. Q x} = {}"
  using assms by (auto simp: inj_on_def)

lemma unit_call_logged:
  assumes "p \<in> set ps" and "outcome_of env vs md p \<noteq> Nothing"
  shows "unit_call p \<in> set (fst (run_units env vs md (tr, r) ps))"
proof -
  from assms(2) have "unit_call p \<in> set (unit_events env vs md p)"
    by (cases "outcome_of env vs md p") (simp_all add: unit_events_def)
  with assms(1) show ?thesis
    by (auto simp: run_units_trace)
qed

lemma generation_order_irrelevant:
  assumes m: "mset qs = mset ps" and d: "distinct (map slideIndex ps)"
  shows "snd (run_units env vs md (tr, r) qs) = snd (run_units env vs md (tr, r) ps)
       \<and> set (fst (run_units env vs md (tr, r) qs)) = set (fst (run_units env vs md (tr, r) ps))"
proof -
  from m have s: "set qs = set ps" by (rule mset_eq_setD)
  from m have "mset (map slideIndex qs) = mset (map slideIndex ps)" by simp
  with d have dq: "distinct (map slideIndex qs)"
    by (metis mset_eq_imp_distinct_iff)
  let ?a = "snd (run_units env vs md (tr, r) qs)" and ?b = "snd (run_units env vs md (tr, r) ps)"
  have "visuals ?a i = visuals ?b i \<and> charts ?a i = charts ?b i \<and> diagrams ?a i = diagrams ?b i" for i
  proof (cases "i \<in> slideIndex ` set ps")
    case True
    then obtain p where p: "p \<in> set ps" "i = slideIndex p" by auto
    from p s have q: "p \<in> set qs" by simp
    from run_units_at [OF d p(1), of env vs md tr r] run_units_at [OF dq q, of env vs md tr r] p(2)
    show ?thesis by simp
  next
    case False
    with s have "i \<notin> slideIndex ` set qs" by simp
    from run_units_elsewhere [OF this, of env vs md tr r] run_units_elsewhere [OF False, of env vs md tr r]
    show ?thesis by simp
  qed
  then have "visuals ?a = visuals ?b" "charts ?a = charts ?b" "diagrams ?a = diagrams ?b"
    by (simp_all add: fun_eq_iff)
  moreover have "slides ?a = slides ?b"
    by (simp add: run_units_slides)
  ultimately have "?a = ?b" by simp
  moreover have "set (fst (run_units env vs md (tr, r) qs)) = set (fst (run_units env vs md (tr, r) ps))"
    by (simp add: run_units_trace s)
  ultimately show ?thesis by simp
qed

text \<open>
  Claim C3, as the code has it. The result has three artifact maps (visuals, charts,
  diagrams) and no map of failures. After a run of the generation stage their key sets
  are pairwise disjoint; the indices of the failed items are in none of them (a failure
  is only logged through console.error); the recorded and the failed indices together
  are exactly the indices of the planned items whose kind has a generator (diagram,
  chart, and illustration under the nano-banana provider); so of N such items of which M
  fail, N - M are recorded. An equation item, or an illustration under another provider,
  is neither recorded nor failed.
\<close>

theorem recorded_or_logged:
  assumes a: "analyzePaperWithService env txt (textService c) = Inr md"
    and g: "generateSlidesWithService env md (textService c) = Inr sl"
    and gv: "generateVisuals c" and v: "visualService c = Some vs"
  shows "\<exists>tr r. orchestratePresentation env txt c = (tr, Inr r)
     \<and> dom (visuals r) \<inter> dom (charts r) = {}
     \<and> dom (visuals r) \<inter> dom (diagrams r) = {}
     \<and> dom (charts r) \<inter> dom (diagrams r) = {}
     \<and> recorded r \<inter> failed_indices tr = {}
     \<and> recorded r \<union> failed_indices tr =
         slideIndex ` {p \<in> set (planVisuals (extractChartData env) sl md). has_generator vs p}
     \<and> card (recorded r) + card (failed_indices tr) =
         length (filter (has_generator vs) (planVisuals (extractChartData env) sl md))"
proof -
  let ?ps = "planVisuals (extractChartData env) sl md"
  let ?start = "\<lparr>slides = sl, visuals = Map.empty, charts = Map.empty, diagrams = Map.empty\<rparr>"
  let ?begin_tr = "[Call_analyzePaper, Call_generateSlides, Call_planVisuals]"
  let ?tr = "fst (run_units env vs md (?begin_tr, ?start) ?ps)"
  let ?r = "snd (run_units env vs md (?begin_tr, ?start) ?ps)"
  let ?oc = "outcome_of env vs md"
  let ?V = "{p \<in> set ?ps. stored_visual (?oc p) \<noteq> None}"
  let ?C = "{p \<in> set ?ps. stored_chart (?oc p) \<noteq> None}"
  let ?D = "{p \<in> set ?ps. stored_diagram (?oc p) \<noteq> None}"
  let ?F = "{p \<in> set ?ps. \<exists>e. ?oc p = Thrown e}"
  let ?S = "{p \<in> set ?ps. stored_visual (?oc p) \<noteq> None \<or> stored_chart (?oc p) \<noteq> None \<or> stored_diagram (?oc p) \<noteq> None}"
  have run: "orchestratePresentation env txt c = (?tr, Inr ?r)"
    by (rule orchestrate_generation [OF a g gv v])
  have d: "distinct (map slideIndex ?ps)"
    by (rule planVisuals_distinct)
  then have inj: "inj_on slideIndex (set ?ps)" and dp: "distinct ?ps"
    by (simp_all add: distinct_map)
  have dv: "dom (visuals ?r) = slideIndex ` ?V"
    and dc: "dom (charts ?r) = slideIndex ` ?C"
    and dd: "dom (diagrams ?r) = slideIndex ` ?D"
    by (rule run_units_dom [OF d]; simp)+
  have "failed_indices ?begin_tr = {}"
    by (simp add: failed_indices_def)
  then have f: "failed_indices ?tr = slideIndex ` ?F"
    by (simp only: run_units_failed Un_empty_left)
  have rec: "recorded ?r = slideIndex ` ?S"
    unfolding recorded_def dv dc dd by blast
  have vc: "dom (visuals ?r) \<inter> dom (charts ?r) = {}"
    unfolding dv dc by (rule image_disjoint [OF inj]) (rule outcome_exclusive)
  have vd: "dom (visuals ?r) \<inter> dom (diagrams ?r) = {}"
    unfolding dv dd by (rule image_disjoint [OF inj]) (rule outcome_exclusive)
  have cd: "dom (charts ?r) \<inter> dom (diagrams ?r) = {}"
    unfolding dc dd by (rule image_disjoint [OF inj]) (rule outcome_exclusive)
  have rf: "recorded ?r \<inter> failed_indices ?tr = {}"
    unfolding rec f by (rule image_disjoint [OF inj]) (rule outcome_exclusive)
  have "?S \<union> ?F = {p \<in> set ?ps. ?oc p \<noteq> Nothing}"
    using outcome_cases by blast
  also have "\<dots> = {p \<in> set ?ps. has_generator vs p}"
    using planned_outcome_Nothing by blast
  finally have SF: "?S \<union> ?F = {p \<in> set ?ps. has_generator vs p}" .
  have cover: "recorded ?r \<union> failed_indices ?tr = slideIndex ` {p \<in> set ?ps. has_generator vs p}"
    unfolding rec f by (simp only: image_Un [symmetric] SF)
  have fin: "finite (recorded ?r)" "finite (failed_indices ?tr)"
    unfolding rec f by simp_all
  have "card (recorded ?r) + card (failed_indices ?tr) = card (recorded ?r \<union> failed_indices ?tr)"
    by (rule card_Un_disjoint [OF fin rf, symmetric])
  also have "\<dots> = card {p \<in> set ?ps. has_generator vs p}"
    unfolding cover by (rule card_image) (rule inj_on_subset [OF inj], blast)
  also have "\<dots> = length (filter (has_generator vs) ?ps)"
    using dp by (simp add: distinct_card [symmetric] distinct_filter set_filter [symmetric] del: set_filter)
  finally have count: "card (recorded ?r) + card (failed_indices ?tr) = length (filter (has_generator vs) ?ps)" .
  from run vc vd cd rf cover count show ?thesis by blast
qed

lemma mixed_hyps:
  "analyzePaperWithService mixed_env [] (textService visuals_on) = Inr sample_metadata"
  "generateSlidesWithService mixed_env sample_metadata (textService visuals_on) = Inr sample_slides"
  "generateVisuals visuals_on"
  "visualService visuals_on = Some nano_service"
  by (simp_all add: mixed_env_def sample_env_def visuals_on_def config_with_def)

lemma mixed_count:
  "length (filter (has_generator nano_service) (planVisuals (extractChartData mixed_env) sample_slides sample_metadata)) = 4"
  by code_simp

theorem recorded_or_logged_witness:
  "analyzePaperWithService mixed_env [] (textService visuals_on) = Inr sample_metadata
   \<and> generateSlidesWithService mixed_env sample_metadata (textService visuals_on) = Inr sample_slides
   \<and> generateVisuals visuals_on
   \<and> visualService visuals_on = Some nano_service
   \<and> (\<exists>tr r. orchestratePresentation mixed_env [] visuals_on = (tr, Inr r)
        \<and> recorded r \<inter> failed_indices tr = {}
        \<and> card (recorded r) + card (failed_indices tr) = 4)"
  using recorded_or_logged [OF mixed_hyps] mixed_hyps mixed_count
  by auto

text \<open>
  Against claim C3 as stated: two planned items, an illustration at index 0 whose image
  request fails and an equation at index 1 that does not fail. The result holds neither
  index: index 1 is in no artifact map although its item did not fail, and the failure
  of index 0 shows only in the console.
\<close>

theorem planned_items_unrecorded:
  "map (\<lambda>p. (slideIndex p, visualType p)) (planVisuals (extractChartData two_env) two_slides sample_metadata) =
     [(0, Illustration), (1, Equation)]
   \<and> orchestratePresentation two_env [] visuals_on =
     ([Call_analyzePaper, Call_generateSlides, Call_planVisuals, Call_generateWithNanoBanana 0,
       ConsoleError 0 (Error ''Nano Banana API error: 503'')],
      Inr \<lparr>slides = two_slides, visuals = Map.empty, charts = Map.empty, diagrams = Map.empty\<rparr>)"
proof -
  have p: "planVisuals (extractChartData two_env) two_slides sample_metadata =
     [\<lparr>slideIndex = 0, slideTitle = ''Overview figure'', visualType = Illustration,
        prompt = Some ''Illustration for: Overview figure. The architecture'', data = None\<rparr>,
      \<lparr>slideIndex = 1, slideTitle = ''Loss'', visualType = Equation, prompt = None, data = None\<rparr>]"
    by code_simp
  have x: "extractChartData two_env = (\<lambda>c. c)"
    by (simp add: two_env_def sample_env_def)
  show ?thesis
    using p unfolding x
    by (simp add: orchestratePresentation_def two_env_def sample_env_def visuals_on_def config_with_def nano_service_def
        run_units_def visual_unit_def or_else_def nano_down_def)
qed

text \<open>
  Claim C4. When analysis and slide generation succeed and visuals are switched on, the
  pipeline is fulfilled with the slides of the critical path, whatever the calls of the
  units do. What the result holds under the index of a planned item is what that item's
  own call came to, and nothing else: a failure is caught in its unit (one console.error
  with that index) and changes no other entry. Every planned item with a generator has
  made its call by the time the pipeline returns. If every item fails, the three maps
  are empty and the pipeline is fulfilled all the same.
\<close>

theorem failures_stay_local:
  assumes a: "analyzePaperWithService env txt (textService c) = Inr md"
    and g: "generateSlidesWithService env md (textService c) = Inr sl"
    and gv: "generateVisuals c" and v: "visualService c = Some vs"
  shows "\<exists>tr r. orchestratePresentation env txt c = (tr, Inr r) \<and> slides r = sl
     \<and> (\<forall>p \<in> set (planVisuals (extractChartData env) sl md).
           visuals r (slideIndex p) = stored_visual (outcome_of env vs md p)
         \<and> charts r (slideIndex p) = stored_chart (outcome_of env vs md p)
         \<and> diagrams r (slideIndex p) = stored_diagram (outcome_of env vs md p)
         \<and> (\<forall>e. ConsoleError (slideIndex p) e \<in> set tr \<longleftrightarrow> outcome_of env vs md p = Thrown e)
         \<and> (has_generator vs p \<longrightarrow> unit_call p \<in> set tr))
     \<and> ((\<forall>p \<in> set (planVisuals (extractChartData env) sl md). \<exists>e. outcome_of env vs md p = Thrown e) \<longrightarrow>
           visuals r = Map.empty \<and> charts r = Map.empty \<and> diagrams r = Map.empty)"
proof -
  let ?ps = "planVisuals (extractChartData env) sl md"
  let ?start = "\<lparr>slides = sl, visuals = Map.empty, charts = Map.empty, diagrams = Map.empty\<rparr>"
  let ?begin_tr = "[Call_analyzePaper, Call_generateSlides, Call_planVisuals]"
  let ?tr = "fst (run_units env vs md (?begin_tr, ?start) ?ps)"
  let ?r = "snd (run_units env vs md (?begin_tr, ?start) ?ps)"
  let ?oc = "outcome_of env vs md"
  have run: "orchestratePresentation env txt c = (?tr, Inr ?r)"
    by (rule orchestrate_generation [OF a g gv v])
  have sl: "slides ?r = sl"
    by (simp add: run_units_slides)
  have d: "distinct (map slideIndex ?ps)"
    by (rule planVisuals_distinct)
  have at: "visuals ?r (slideIndex p) = stored_visual (?oc p)
      \<and> charts ?r (slideIndex p) = stored_chart (?oc p)
      \<and> diagrams ?r (slideIndex p) = stored_diagram (?oc p)" if "p \<in> set ?ps" for p
    using run_units_at [OF d that, of env vs md ?begin_tr ?start]
    by (simp add: put_def split: option.splits)
  have out: "visuals ?r i = None \<and> charts ?r i = None \<and> diagrams ?r i = None"
    if "i \<notin> slideIndex ` set ?ps" for i
    using run_units_elsewhere [OF that, of env vs md ?begin_tr ?start] by simp
  have err: "ConsoleError (slideIndex p) e \<in> set ?tr \<longleftrightarrow> ?oc p = Thrown e" if p: "p \<in> set ?ps" for p e
  proof
    assume "ConsoleError (slideIndex p) e \<in> set ?tr"
    then obtain q where q: "q \<in> set ?ps" "slideIndex p = slideIndex q" "?oc q = Thrown e"
      by (auto simp: run_units_errors)
    from d have "inj_on slideIndex (set ?ps)" by (simp add: distinct_map)
    with p q have "p = q" by (auto simp: inj_on_def)
    with q show "?oc p = Thrown e" by simp
  next
    assume "?oc p = Thrown e"
    with p show "ConsoleError (slideIndex p) e \<in> set ?tr"
      by (auto simp: run_units_errors)
  qed
  have call: "unit_call p \<in> set ?tr" if p: "p \<in> set ?ps" and h: "has_generator vs p" for p
  proof -
    from p h have "?oc p \<noteq> Nothing"
      by (simp add: planned_outcome_Nothing [OF p])
    with p show ?thesis by (rule unit_call_logged)
  qed
  have allfail: "visuals ?r = Map.empty \<and> charts ?r = Map.empty \<and> diagrams ?r = Map.empty"
    if f: "\<forall>p \<in> set ?ps. \<exists>e. ?oc p = Thrown e"
  proof -
    have "visuals ?r i = None \<and> charts ?r i = None \<and> diagrams ?r i = None" for i
    proof (cases "i \<in> slideIndex ` set ?ps")
      case True
      then obtain p where p: "p \<in> set ?ps" "i = slideIndex p" by auto
      with f obtain e where "?oc p = Thrown e" by blast
      with at [OF p(1)] p(2) show ?thesis
        by (simp add: stored_visual_def stored_chart_def stored_diagram_def)
    next
      case False
      then show ?thesis by (rule out)
    qed
    then show ?thesis by (simp add: fun_eq_iff)
  qed
  from run sl at err call allfail show ?thesis by blast
qed

lemma failing_hyps:
  "analyzePaperWithService failing_env [] (textService visuals_on) = Inr sample_metadata"
  "generateSlidesWithService failing_env sample_metadata (textService visuals_on) = Inr chart_slides"
  "generateVisuals visuals_on"
  "visualService visuals_on = Some nano_service"
  by (simp_all add: failing_env_def sample_env_def visuals_on_def config_with_def)

lemma failing_all_thrown:
  "list_all (\<lambda>p. case outcome_of failing_env nano_service sample_metadata p of Thrown e \<Rightarrow> True | _ \<Rightarrow> False)
     (planVisuals (extractChartData failing_env) chart_slides sample_metadata)"
  by code_simp

lemma failing_plans:
  "map (\<lambda>p. (slideIndex p, visualType p)) (planVisuals (extractChartData failing_env) chart_slides sample_metadata) =
     [(1, Illustration), (2, Chart)]"
  by code_simp

theorem failures_stay_local_witness:
  "analyzePaperWithService failing_env [] (textService visuals_on) = Inr sample_metadata
   \<and> generateSlidesWithService failing_env sample_metadata (textService visuals_on) = Inr chart_slides
   \<and> generateVisuals visuals_on
   \<and> visualService visuals_on = Some nano_service
   \<and> map (\<lambda>p. (slideIndex p, visualType p)) (planVisuals (extractChartData failing_env) chart_slides sample_metadata) =
       [(1, Illustration), (2, Chart)]
   \<and> snd (orchestratePresentation failing_env [] visuals_on) =
       Inr \<lparr>slides = chart_slides, visuals = Map.empty, charts = Map.empty, diagrams = Map.empty\<rparr>"
proof -
  have all: "\<forall>p \<in> set (planVisuals (extractChartData failing_env) chart_slides sample_metadata).
      \<exists>e. outcome_of failing_env nano_service sample_metadata p = Thrown e"
  proof
    fix p
    assume "p \<in> set (planVisuals (extractChartData failing_env) chart_slides sample_metadata)"
    with failing_all_thrown
    have "case outcome_of failing_env nano_service sample_metadata p of Thrown e \<Rightarrow> True | _ \<Rightarrow> False"
      by (simp add: list_all_iff)
    then show "\<exists>e. outcome_of failing_env nano_service sample_metadata p = Thrown e"
      by (cases "outcome_of failing_env nano_service sample_metadata p") simp_all
  qed
  from failures_stay_local [OF failing_hyps] all
  obtain tr r where "orchestratePresentation failing_env [] visuals_on = (tr, Inr r)"
    and "slides r = chart_slides" and "visuals r = Map.empty" and "charts r = Map.empty"
    and "diagrams r = Map.empty"
    by blast
  then have "snd (orchestratePresentation failing_env [] visuals_on) =
      Inr \<lparr>slides = chart_slides, visuals = Map.empty, charts = Map.empty, diagrams = Map.empty\<rparr>"
    by simp
  with failing_hyps failing_plans show ?thesis by simp
qed

section \<open>The critical path\<close>

text \<open>
  Claim C5. If the analysis call fails, the pipeline is rejected with that error at
  once: the only call it has made is the analysis call; planVisuals is not called and
  no generation takes place.
\<close>

theorem analysis_failure_fatal:
  assumes "analyzePaperWithService env txt (textService c) = Inl e"
  shows "orchestratePresentation env txt c = ([Call_analyzePaper], Inl e)
       \<and> Call_planVisuals \<notin> set (fst (orchestratePresentation env txt c))"
  using assms by (simp add: orchestratePresentation_def)

theorem analysis_failure_fatal_witness:
  "analyzePaperWithService no_analysis_env [] (textService visuals_on) = Inl (Error ''Invalid response format'')
   \<and> orchestratePresentation no_analysis_env [] visuals_on =
       ([Call_analyzePaper], Inl (Error ''Invalid response format''))"
proof -
  have h: "analyzePaperWithService no_analysis_env [] (textService visuals_on) =
      Inl (Error ''Invalid response format'')"
    by (simp add: no_analysis_env_def sample_env_def)
  from analysis_failure_fatal [OF h] h show ?thesis by simp
qed

text \<open>
  Claim C10. With generateVisuals false, or with no visualService, a pipeline whose
  critical path succeeds returns right after it: the result holds the generated slides
  and three empty maps, and the only calls made are the analysis call and the slide
  generation; planVisuals and the generators are not called.
\<close>

theorem visuals_off_only_slides:
  assumes "\<not> generateVisuals c \<or> visualService c = None"
    and "analyzePaperWithService env txt (textService c) = Inr md"
    and "generateSlidesWithService env md (textService c) = Inr sl"
  shows "orchestratePresentation env txt c =
     ([Call_analyzePaper, Call_generateSlides],
      Inr \<lparr>slides = sl, visuals = Map.empty, charts = Map.empty, diagrams = Map.empty\<rparr>)"
  using assms by (auto simp: orchestratePresentation_def Let_def)

theorem visuals_off_only_slides_witness:
  "generateVisuals visuals_off = False
   \<and> analyzePaperWithService mixed_env [] (textService visuals_off) = Inr sample_metadata
   \<and> generateSlidesWithService mixed_env sample_metadata (textService visuals_off) = Inr sample_slides
   \<and> orchestratePresentation mixed_env [] visuals_off =
       ([Call_analyzePaper, Call_generateSlides],
        Inr \<lparr>slides = sample_slides, visuals = Map.empty, charts = Map.empty, diagrams = Map.empty\<rparr>)"
proof -
  have g: "generateVisuals visuals_off = False"
    by (simp add: visuals_off_def config_with_def)
  then have h1: "\<not> generateVisuals visuals_off \<or> visualService visuals_off = None"
    by simp
  have h2: "analyzePaperWithService mixed_env [] (textService visuals_off) = Inr sample_metadata"
    and h3: "generateSlidesWithService mixed_env sample_metadata (textService visuals_off) = Inr sample_slides"
    by (simp_all add: mixed_env_def sample_env_def)
  from visuals_off_only_slides [OF h1 h2 h3] g h2 h3 show ?thesis by simp
qed

end
